theory Spec2Isabelle
  imports Main "HOL-Library.Word" "HOL-Library.Sublist"
begin

unbundle bit_operations_syntax

section \<open>Strings\<close>

text \<open>
  A Python \<open>str\<close> is modelled as a \<open>string\<close>.  A text that a server receives or
  computes has one \<open>char\<close> per code point, so its code points are those from 0 to 255, and
  the character classes below are those of Python 3 on them.  A few literals of the
  source contain a character above U+00FF (a quotation mark, a dash, three pictographs):
  such a character is written as the bytes of its UTF-8 encoding.  None of these bytes is
  a character that a pattern or an exit phrase names, and no length is taken of a text
  that still contains them.
\<close>

definition is_space :: "char \<Rightarrow> bool" where
  \<comment> \<open>\<open>str.isspace\<close> on one character, which is also the class \<open>\s\<close> of \<open>re\<close>\<close>
  "is_space c = (of_char c \<in> {9, 10, 11, 12, 13, 28, 29, 30, 31, 32, 133, 160 :: nat})"

definition is_digit :: "char \<Rightarrow> bool" where
  \<comment> \<open>the class \<open>\d\<close>\<close>
  "is_digit c = (48 \<le> (of_char c :: nat) \<and> (of_char c :: nat) \<le> 57)"

definition is_word :: "char \<Rightarrow> bool" where
  \<comment> \<open>the class \<open>\w\<close>: alphanumeric characters and the underscore\<close>
  "is_word c = (let n = (of_char c :: nat) in
     (48 \<le> n \<and> n \<le> 57) \<or> (65 \<le> n \<and> n \<le> 90) \<or> n = 95 \<or> (97 \<le> n \<and> n \<le> 122)
     \<or> n \<in> {170, 178, 179, 181, 185, 186, 188, 189, 190}
     \<or> (192 \<le> n \<and> n \<le> 214) \<or> (216 \<le> n \<and> n \<le> 246) \<or> 248 \<le> n)"

definition lower_char :: "char \<Rightarrow> char" where
  "lower_char c = (let n = (of_char c :: nat) in
     if (65 \<le> n \<and> n \<le> 90) \<or> (192 \<le> n \<and> n \<le> 214) \<or> (216 \<le> n \<and> n \<le> 222)
     then char_of (n + 32) else c)"

definition lower :: "string \<Rightarrow> string" where
  \<comment> \<open>\<open>str.lower\<close>\<close>
  "lower s = map lower_char s"

definition strip :: "string \<Rightarrow> string" where
  \<comment> \<open>\<open>str.strip()\<close>: leading and trailing whitespace removed\<close>
  "strip s = rev (dropWhile is_space (rev (dropWhile is_space s)))"

fun is_in :: "string \<Rightarrow> string \<Rightarrow> bool" where
  \<comment> \<open>\<open>sub in s\<close>\<close>
  "is_in sub [] = (sub = [])"
| "is_in sub (c # cs) = (prefix sub (c # cs) \<or> is_in sub cs)"

function replace :: "string \<Rightarrow> string \<Rightarrow> string \<Rightarrow> string" where
  \<comment> \<open>\<open>s.replace(old, new)\<close>\<close>
  "replace old new s =
     (if old = [] then new @ concat (map (\<lambda>c. c # new) s)
      else if s = [] then []
      else if prefix old s then new @ replace old new (drop (length old) s)
      else hd s # replace old new (tl s))"
  by pat_completeness auto
termination
  by (relation "measure (\<lambda>(old, new, s). length s)") auto

declare replace.simps [simp del]

section \<open>Regular expressions\<close>

text \<open>
  The fragment of \<open>re\<close> that the patterns of \<open>clean_response_text\<close> use. The matcher
  lists the positions at which a match of the expression can end, in the order in which
  the backtracking matcher of \<open>re\<close> tries them: a greedy repetition takes one more
  iteration before it gives up, an optional part is tried before it is skipped.  A
  position is the character before it, if any, and the rest of the text.
\<close>

datatype cls = Chr char | Space | Digit | AnyChar | OneOf "char list"

datatype re = Eps | One cls | WordB | Seq re re | Opt re | Star re

type_synonym pos = "char option \<times> string"

fun cls_ok :: "bool \<Rightarrow> cls \<Rightarrow> char \<Rightarrow> bool" where
  "cls_ok ic (Chr d) c = (if ic then lower_char c = lower_char d else c = d)"
| "cls_ok ic Space c = is_space c"
| "cls_ok ic Digit c = is_digit c"
| "cls_ok ic AnyChar c = True"
| "cls_ok ic (OneOf ds) c = (c \<in> set ds)"

definition at_boundary :: "pos \<Rightarrow> bool" where
  \<comment> \<open>\<open>\b\<close>: exactly one of the two neighbours is a word character\<close>
  "at_boundary p =
     ((case fst p of None \<Rightarrow> False | Some c \<Rightarrow> is_word c)
      \<noteq> (case snd p of [] \<Rightarrow> False | c # _ \<Rightarrow> is_word c))"

fun ms :: "bool \<Rightarrow> re \<Rightarrow> pos \<Rightarrow> pos list" where
  "ms ic Eps p = [p]"
| "ms ic (One k) p =
     (case snd p of [] \<Rightarrow> [] | c # cs \<Rightarrow> if cls_ok ic k c then [(Some c, cs)] else [])"
| "ms ic WordB p = (if at_boundary p then [p] else [])"
| "ms ic (Seq a b) p = concat (map (ms ic b) (ms ic a p))"
| "ms ic (Opt a) p = ms ic a p @ [p]"
| "ms ic (Star a) p =
     concat (map (\<lambda>q. if length (snd q) < length (snd p) then ms ic (Star a) q else [])
                 (ms ic a p)) @ [p]"

declare ms.simps(6) [simp del]

definition Plus :: "re \<Rightarrow> re" where
  "Plus a = Seq a (Star a)"

fun AtLeast :: "nat \<Rightarrow> re \<Rightarrow> re" where
  "AtLeast 0 a = Star a"
| "AtLeast (Suc n) a = Seq a (AtLeast n a)"

fun Str :: "string \<Rightarrow> re" where
  "Str [] = Eps"
| "Str (c # cs) = Seq (One (Chr c)) (Str cs)"

fun Cat :: "re list \<Rightarrow> re" where
  "Cat [] = Eps"
| "Cat (a # as) = Seq a (Cat as)"

function sub_from :: "bool \<Rightarrow> re \<Rightarrow> string \<Rightarrow> pos \<Rightarrow> string" where
  "sub_from ic r rep p =
     (case ms ic r p of
        q # _ \<Rightarrow>
          if length (snd q) < length (snd p) then rep @ sub_from ic r rep q
          else rep @ (case snd p of [] \<Rightarrow> [] | c # cs \<Rightarrow> c # sub_from ic r rep (Some c, cs))
      | [] \<Rightarrow> (case snd p of [] \<Rightarrow> [] | c # cs \<Rightarrow> c # sub_from ic r rep (Some c, cs)))"
  by pat_completeness auto
termination
  by (relation "measure (\<lambda>(ic, r, rep, p). length (snd p))") auto

declare sub_from.simps [simp del]

definition re_sub :: "bool \<Rightarrow> re \<Rightarrow> string \<Rightarrow> string \<Rightarrow> string" where
  \<comment> \<open>\<open>re.sub(pattern, repl, text)\<close>; the flag is \<open>re.IGNORECASE\<close>\<close>
  "re_sub ic r rep s = sub_from ic r rep (None, s)"

section \<open>The answer post-processor\<close>

definition pat_bracket_id :: re where
  \<comment> \<open>\<^verbatim>\<open>\[id=\s*\d+\s*\]\<close>\<close>
  "pat_bracket_id =
     Cat [Str ''[id='', Star (One Space), Plus (One Digit), Star (One Space), Str '']'']"

definition pat_paren_id :: re where
  \<comment> \<open>\<^verbatim>\<open>\(id=\s*\d+(?:\s*,\s*score\s*=\s*[-+]?\d*\.?\d+)?\s*\)\<close>\<close>
  "pat_paren_id =
     Cat [Str ''(id='', Star (One Space), Plus (One Digit),
          Opt (Cat [Star (One Space), Str '','', Star (One Space), Str ''score'',
                    Star (One Space), Str ''='', Star (One Space),
                    Opt (One (OneOf ''-+'')), Star (One Digit), Opt (One (Chr CHR ''.'')),
                    Plus (One Digit)]),
          Star (One Space), Str '')'']"

definition pat_bare_id :: re where
  \<comment> \<open>\<^verbatim>\<open>\bid\s*=\s*\d+\b\<close>\<close>
  "pat_bare_id =
     Cat [WordB, Str ''id'', Star (One Space), Str ''='', Star (One Space),
          Plus (One Digit), WordB]"

definition pat_empty_brackets :: re where
  \<comment> \<open>\<^verbatim>\<open>\[\s*\]\<close>\<close>
  "pat_empty_brackets = Cat [Str ''['', Star (One Space), Str '']'']"

definition pat_empty_parens :: re where
  \<comment> \<open>\<^verbatim>\<open>\(\s*\)\<close>\<close>
  "pat_empty_parens = Cat [Str ''('', Star (One Space), Str '')'']"

definition pat_newlines :: re where
  \<comment> \<open>\<^verbatim>\<open>\n{3,}\<close>\<close>
  "pat_newlines = AtLeast 3 (One (Chr CHR 0x0A))"

definition pat_spaces :: re where
  \<comment> \<open>\<^verbatim>\<open>[ \t]{2,}\<close>\<close>
  "pat_spaces = AtLeast 2 (One (OneOf [CHR '' '', CHR 0x09]))"

definition pat_context :: re where
  \<comment> \<open>\<^verbatim>\<open>CONTEXT:.*USER QUERY:.*Answer:\<close>, used with \<open>re.DOTALL\<close>\<close>
  "pat_context =
     Cat [Str ''CONTEXT:'', Star (One AnyChar), Str ''USER QUERY:'', Star (One AnyChar),
          Str ''Answer:'']"

definition clean_response_text :: "string \<Rightarrow> string" where
  "clean_response_text text =
     (if text = [] then text
      else
        let cleaned = text;
            cleaned = re_sub False pat_bracket_id '' '' cleaned;
            cleaned = re_sub True pat_paren_id '' '' cleaned;
            cleaned = re_sub False pat_bare_id '' '' cleaned;
            cleaned = re_sub False pat_empty_brackets '' '' cleaned;
            cleaned = re_sub False pat_empty_parens '' '' cleaned;
            cleaned = replace ''*'' '' '' cleaned;
            cleaned = re_sub False pat_newlines [CHR 0x0A, CHR 0x0A] cleaned;
            cleaned = re_sub False pat_spaces '' '' cleaned;
            cleaned = strip cleaned;
            cleaned = strip (re_sub True pat_context [] cleaned)
        in cleaned)"

section \<open>Retrieval\<close>

datatype exn = Exception string

text \<open>
  The embedding encoder and the vector index are libraries outside the repository: an
  encoder is its \<open>encode\<close> method and an index its \<open>search\<close> method, each of which
  returns or raises.  \<open>faiss.normalize_L2\<close> is a parameter as well.  Vectors and
  scores are of the arbitrary types \<open>'v\<close> and \<open>'s\<close>.  \<open>retrieve\<close> also returns the calls
  it has made to the two libraries, in order.
\<close>

type_synonym 'v encoder = "string \<Rightarrow> exn + 'v"
type_synonym ('v, 's) index = "'v \<Rightarrow> int \<Rightarrow> exn + 's list \<times> int list"

datatype 'v call = Encode string | Search 'v int

text \<open>An exception is the text that \<open>str\<close> gives for it.\<close>

definition quoted :: "string \<Rightarrow> string" where
  "quoted s = [CHR 0x27] @ s @ [CHR 0x27]"

definition none_has_no_attribute :: "string \<Rightarrow> exn" where
  \<comment> \<open>the AttributeError of a method call on \<open>None\<close>\<close>
  "none_has_no_attribute a =
     Exception (quoted ''NoneType'' @ '' object has no attribute '' @ quoted a)"

definition none_has_no_len :: exn where
  \<comment> \<open>the TypeError of \<open>len(None)\<close>\<close>
  "none_has_no_len = Exception (''object of type '' @ quoted ''NoneType'' @ '' has no len()'')"

fun retrieve_loop ::
  "string list option \<Rightarrow> (int \<times> 's) list \<Rightarrow> (int \<times> 's \<times> string) list
     \<Rightarrow> exn + (int \<times> 's \<times> string) list" where
  "retrieve_loop texts_list [] results = Inr results"
| "retrieve_loop texts_list ((idx, score) # rest) results =
     (case texts_list of
        None \<Rightarrow> (if 0 \<le> idx then Inl none_has_no_len
                 else retrieve_loop texts_list rest results)
      | Some ts \<Rightarrow>
          if 0 \<le> idx \<and> idx < int (length ts)
          then retrieve_loop texts_list rest (results @ [(idx, score, ts ! nat idx)])
          else retrieve_loop texts_list rest results)"

definition retrieve ::
  "('v \<Rightarrow> 'v) \<Rightarrow> string \<Rightarrow> ('v, 's) index option \<Rightarrow> string list option \<Rightarrow> 'v encoder option
     \<Rightarrow> int \<Rightarrow> 'v call list \<times> (exn + (int \<times> 's \<times> string) list)" where
  "retrieve normalize_L2 query index texts_list embedder_local top_k =
     (if query = [] \<or> strip query = [] then ([], Inr [])
      else case embedder_local of
        None \<Rightarrow> ([], Inl (none_has_no_attribute ''encode''))
      | Some encode \<Rightarrow>
         (case encode query of
            Inl e \<Rightarrow> ([Encode query], Inl e)
          | Inr q_emb0 \<Rightarrow>
             (let q_emb = normalize_L2 q_emb0 in
              case index of
                None \<Rightarrow> ([Encode query], Inl (none_has_no_attribute ''search''))
              | Some search \<Rightarrow>
                 (case search q_emb top_k of
                    Inl e \<Rightarrow> ([Encode query, Search q_emb top_k], Inl e)
                  | Inr (distances, indices) \<Rightarrow>
                      ([Encode query, Search q_emb top_k],
                       retrieve_loop texts_list (zip indices distances) [])))))"

section \<open>Prompt composition\<close>

function digits :: "nat \<Rightarrow> string" where
  "digits n = (if n < 10 then [''0123456789'' ! n]
               else digits (n div 10) @ [''0123456789'' ! (n mod 10)])"
  by pat_completeness auto
termination
  by (relation "measure id") auto

declare digits.simps [simp del]

definition str_int :: "int \<Rightarrow> string" where
  \<comment> \<open>\<open>str\<close> of an integer\<close>
  "str_int i = (if i < 0 then CHR ''-'' # digits (nat (- i)) else digits (nat i))"

definition join :: "string \<Rightarrow> string list \<Rightarrow> string" where
  \<comment> \<open>\<open>sep.join(parts)\<close>\<close>
  "join sep parts = (case parts of [] \<Rightarrow> [] | p # ps \<Rightarrow> p @ concat (map (\<lambda>q. sep @ q) ps))"

definition format_entry :: "('s \<Rightarrow> string) \<Rightarrow> int \<Rightarrow> 's \<Rightarrow> string \<Rightarrow> string" where
  \<comment> \<open>the f-string of an entry; \<open>fmt4\<close> is the format \<open>{score:.4f}\<close> of a float\<close>
  "format_entry fmt4 idx score txt =
     ''(id='' @ str_int idx @ '', score='' @ fmt4 score @ '')\<newline>'' @ strip txt @ ''\<newline>---\<newline>''"

fun context_loop ::
  "('s \<Rightarrow> string) \<Rightarrow> (int \<times> 's \<times> string) list \<Rightarrow> int \<Rightarrow> int \<Rightarrow> string list \<Rightarrow> string list" where
  "context_loop fmt4 [] max_context_chars total_len context_parts = context_parts"
| "context_loop fmt4 ((idx, score, txt) # rest) max_context_chars total_len context_parts =
     (let entry = format_entry fmt4 idx score txt;
          total_len = total_len + int (length entry)
      in if total_len > max_context_chars then context_parts
         else context_loop fmt4 rest max_context_chars total_len (context_parts @ [entry]))"

definition context_parts ::
  "('s \<Rightarrow> string) \<Rightarrow> (int \<times> 's \<times> string) list \<Rightarrow> int \<Rightarrow> string list" where
  \<comment> \<open>the list \<open>context_parts\<close> when the loop of \<open>make_prompt\<close> is left\<close>
  "context_parts fmt4 retrieved max_context_chars =
     context_loop fmt4 retrieved max_context_chars 0 []"

definition instruction :: string where
  \<comment> \<open>the two characters of the text outside ASCII, U+2019 and U+2014, are written as their
      UTF-8 bytes\<close>
  "instruction =
     ''You are an assistant who answers *with reference to the Bhagavad Gita*.\<newline>''
   @ ''\<newline>''
   @ ''GUIDELINES:\<newline>''
   @ ''1. Use only the verses provided in the CONTEXT.\<newline>''
   @ ''   - Treat CONTEXT as the sole knowledge source for Gita references.\<newline>''
   @ ''   - Do not invent or recall verses outside the given IDs.\<newline>''
   @ ''\<newline>''
   @ ''2. Citations:\<newline>''
   @ ''   - When basing any part of your answer on a verse, include an inline citation in this exact format: (id=XYZ).\<newline>''
   @ ''   - If summarizing multiple verses, cite each relevant id, it would be preferable to give chapter number and verse number as well in the beginning before referencing that to the answer to solution.\<newline>''
   @ ''\<newline>''
   @ ''3. Quoting:\<newline>''
   @ ''   - Keep direct quotes short (a phrase or line).\<newline>''
   @ ''   - Prefer paraphrasing + explanation over long copy-pastes.\<newline>''
   @ ''\<newline>''
   @ ''4. Style of Answer:\<newline>''
   @ ''   - Provide clear, decently detailed explanations in under 120 words.\<newline>''
   @ ''   - Show how the verse connects to the user'' @ [CHR 0xE2, CHR 0x80, CHR 0x99]
   @ ''s question (very very important).\<newline>''
   @ ''   - Encourage and guide the user in understanding, without being preachy. \<newline>''
   @ ''\<newline>''
   @ ''5. Boundaries:\<newline>''
   @ ''   - Do not fabricate chapter/verse numbers.\<newline>''
   @ ''   - Do not rely on outside knowledge '' @ [CHR 0xE2, CHR 0x80, CHR 0x94]
   @ '' only use the given CONTEXT.''"

definition make_prompt ::
  "('s \<Rightarrow> string) \<Rightarrow> string \<Rightarrow> (int \<times> 's \<times> string) list \<Rightarrow> int \<Rightarrow> string" where
  "make_prompt fmt4 query retrieved max_context_chars =
     (let context = join ''\<newline>'' (context_parts fmt4 retrieved max_context_chars)
      in instruction @ ''\<newline>\<newline>CONTEXT:\<newline>'' @ context @ ''\<newline>USER QUERY:\<newline>'' @ query
         @ ''\<newline>\<newline>Answer:'')"

section \<open>Generation\<close>

text \<open>
  What the server is configured with and the libraries it calls.  The two generation
  functions and the synthesis helpers of the source only wrap calls to libraries
  (\<open>ollama\<close>, \<open>transformers\<close>, \<open>piper\<close>, \<open>pyttsx3\<close>, SAPI): each is a function that returns or
  raises.  \<open>piper_init_once\<close> is the result of \<open>_piper_init_once()\<close>, \<open>pyttsx3_save\<close> and
  \<open>sapi_speak\<close> are the second and third block of \<open>generate_tts_audio\<close>.
\<close>

record ('v, 's) env =
  CHANNELS :: int
  TOP_K :: int
  HAS_OLLAMA :: bool
  HAS_PIPER :: bool
  normalize_L2 :: "'v \<Rightarrow> 'v"
  fmt4 :: "'s \<Rightarrow> string"
  generate_with_ollama :: "string \<Rightarrow> exn + string"
  generate_with_transformers :: "string \<Rightarrow> exn + string"
  piper_init_once :: bool
  piper_synthesize_to_wav_bytes :: "string \<Rightarrow> exn + 8 word list"
  pyttsx3_save :: "string \<Rightarrow> exn + 8 word list"
  sapi_speak :: "string \<Rightarrow> exn + 8 word list"

definition APOLOGY :: string where
  \<comment> \<open>the dash is U+2014, written as its UTF-8 bytes\<close>
  "APOLOGY = ''I'm sorry '' @ [CHR 0xE2, CHR 0x80, CHR 0x94]
     @ '' the language model is currently unavailable.''"

definition safe_generate :: "('v, 's) env \<Rightarrow> string \<Rightarrow> string" where
  "safe_generate env prompt =
     (let fallback = (case generate_with_transformers env prompt of
                        Inr t \<Rightarrow> t
                      | Inl e \<Rightarrow> APOLOGY)
      in if HAS_OLLAMA env
         then (case generate_with_ollama env prompt of Inr t \<Rightarrow> t | Inl e \<Rightarrow> fallback)
         else fallback)"

section \<open>Speech synthesis\<close>

definition generate_tts_audio :: "('v, 's) env \<Rightarrow> string \<Rightarrow> string \<Rightarrow> 8 word list option" where
  "generate_tts_audio env text preferred =
     (let piper =
            (if preferred = ''piper'' \<and> HAS_PIPER env
             then (if \<not> piper_init_once env then None
                   else case piper_synthesize_to_wav_bytes env text of
                          Inl e \<Rightarrow> None
                        | Inr wav_bytes \<Rightarrow> if wav_bytes \<noteq> [] then Some wav_bytes else None)
             else None)
      in case piper of
           Some wav_bytes \<Rightarrow> Some wav_bytes
         | None \<Rightarrow>
            (case pyttsx3_save env text of
               Inr data \<Rightarrow> Some data
             | Inl e \<Rightarrow>
                (case sapi_speak env text of
                   Inr data \<Rightarrow> Some data
                 | Inl e \<Rightarrow> None)))"

section \<open>Server state, start-up and health\<close>

text \<open>
  A loaded transcriber is its two ways of transcribing the samples of a request: from the
  array, and from a temporary WAV file written first.  Each gives the value of the key
  \<open>text\<close> of the result, if the result has one.  A dataframe is its columns, each with
  whether its dtype is \<open>object\<close> or \<open>string\<close>.
\<close>

record whisper =
  transcribe_array :: "16 word list \<Rightarrow> exn + string option"
  transcribe_wav :: "16 word list \<Rightarrow> exn + string option"

type_synonym dataframe = "(string \<times> bool) list"

record ('v, 's) server_state =
  whisper_model :: "whisper option"
  embedder :: "'v encoder option"
  faiss_index :: "('v, 's) index option"
  texts :: "string list option"
  df :: "dataframe option"




definition index_out_of_bounds :: exn where
  \<comment> \<open>the IndexError of \<open>df.columns[0]\<close> on a dataframe without columns\<close>
  "index_out_of_bounds = Exception ''index 0 is out of bounds for axis 0 with size 0''"

definition text_col_candidates :: "dataframe \<Rightarrow> string list" where
  "text_col_candidates d = map fst (filter snd d)"



section \<open>The turn of \<open>server.py\<close>\<close>

fun int16_pairs :: "8 word list \<Rightarrow> 16 word list" where
  \<comment> \<open>two bytes per sample, the low byte first\<close>
  "int16_pairs (lo # hi # rest) = (ucast lo OR push_bit 8 (ucast hi)) # int16_pairs rest"
| "int16_pairs [b] = []"
| "int16_pairs [] = []"

definition frombuffer :: "8 word list \<Rightarrow> exn + 16 word list" where
  \<comment> \<open>\<open>np.frombuffer(buf, dtype=np.int16)\<close>\<close>
  "frombuffer buf =
     (if length buf mod 2 \<noteq> 0
      then Inl (Exception ''buffer size must be a multiple of element size'')
      else Inr (int16_pairs buf))"

definition first_channel :: "nat \<Rightarrow> 'a list \<Rightarrow> 'a list" where
  \<comment> \<open>\<open>a.reshape(-1, n)[:, 0]\<close>, for a length that \<open>n\<close> divides\<close>
  "first_channel n xs = map (\<lambda>i. xs ! (i * n)) [0..<length xs div n]"

definition py_take :: "int \<Rightarrow> 'a list \<Rightarrow> 'a list" where
  \<comment> \<open>the slice \<open>xs[:k]\<close>\<close>
  "py_take k xs = (if 0 \<le> k then take (nat k) xs else take (length xs - nat (- k)) xs)"

definition hex_digit :: "nat \<Rightarrow> char" where
  "hex_digit n = ''0123456789abcdef'' ! n"

definition hex :: "8 word list \<Rightarrow> string" where
  \<comment> \<open>\<open>bytes.hex()\<close>\<close>
  "hex bs = concat (map (\<lambda>b. [hex_digit (unat b div 16), hex_digit (unat b mod 16)]) bs)"

record turn =
  transcription :: string
  response :: string
  formatted_response :: string
  audio :: "string option"
  response_raw :: string

datatype body = Error string | Turn turn

definition select_text_col :: "dataframe option \<Rightarrow> exn + string" where
  \<comment> \<open>lines 468 to 471; the column chosen is not used afterwards\<close>
  "select_text_col dfo =
     (case dfo of
        None \<Rightarrow> Inl (none_has_no_attribute ''columns'')
      | Some d \<Rightarrow>
          if ''translation'' \<in> set (map fst d) then Inr ''translation''
          else if text_col_candidates d \<noteq> [] then Inr (hd (text_col_candidates d))
          else if d \<noteq> [] then Inr (fst (hd d))
          else Inl index_out_of_bounds)"

definition transcription_failed :: "exn \<Rightarrow> exn \<Rightarrow> string" where
  "transcription_failed e_direct e_file =
     (case (e_direct, e_file) of (Exception d, Exception f) \<Rightarrow>
        ''Transcription failed. If this mentions ffmpeg or WinError 2, ''
      @ ''please install ffmpeg and ensure it is on PATH. ''
      @ ''Direct error: '' @ d @ ''; file error: '' @ f)"

definition transcribe_request :: "whisper \<Rightarrow> 16 word list \<Rightarrow> string + string option" where
  \<comment> \<open>lines 436 to 462: the result of the transcription, or the message of the response
      500 when both ways fail\<close>
  "transcribe_request w audio_int16 =
     (case transcribe_array w audio_int16 of
        Inr result \<Rightarrow> Inr result
      | Inl e_direct \<Rightarrow>
         (case transcribe_wav w audio_int16 of
            Inr result \<Rightarrow> Inr result
          | Inl e_file \<Rightarrow> Inl (transcription_failed e_direct e_file)))"

definition format_sources :: "('s \<Rightarrow> string) \<Rightarrow> (int \<times> 's \<times> string) list \<Rightarrow> string" where
  \<comment> \<open>the entries that the loop of lines 486 and 487 appends\<close>
  "format_sources f rs =
     concat (map (\<lambda>(idx, score, tx).
        ''\<newline>(id='' @ str_int idx @ '', score='' @ f score @ '')\<newline>'' @ tx @ ''\<newline>---\<newline>'') rs)"

text \<open>
  \<open>process_audio\<close> in two parts: the turn up to the retrieval (lines 414 to 472), which
  ends in a response or goes on with the transcription and the verses retrieved, and the
  answer to them (lines 474 to 512).  The handler of line 514 turns an exception into a
  response 500.  \<open>generate_tts_audio\<close> catches what its libraries raise, so the handler of
  line 499 around its call has nothing to catch.
\<close>

definition process_audio_retrieve ::
  "('v, 's) env \<Rightarrow> ('v, 's) server_state \<Rightarrow> 8 word list
     \<Rightarrow> body \<times> nat + string \<times> (int \<times> 's \<times> string) list" where
  "process_audio_retrieve env st audio_bytes =
     (case whisper_model st of
        None \<Rightarrow> Inl (Error ''Models not loaded on server.'', 503)
      | Some w \<Rightarrow>
         if audio_bytes = [] then Inl (Error ''No audio data received'', 400)
         else
          (case frombuffer audio_bytes of
             Inl (Exception e) \<Rightarrow> Inl (Error (''Failed to parse int16 audio bytes: '' @ e), 400)
           | Inr decoded \<Rightarrow>
              (let audio_int16 =
                     (if CHANNELS env > 1 \<and> int (length decoded) mod CHANNELS env = 0
                      then first_channel (nat (CHANNELS env)) decoded else decoded)
               in (case transcribe_request w audio_int16 of
                     Inl msg \<Rightarrow> Inl (Error msg, 500)
                   | Inr result \<Rightarrow>
                      (let transcribed_text = strip (case result of None \<Rightarrow> [] | Some t \<Rightarrow> t)
                       in (case select_text_col (df st) of
                             Inl (Exception e) \<Rightarrow> Inl (Error e, 500)
                           | Inr text_col \<Rightarrow>
                              (case snd (retrieve (normalize_L2 env) transcribed_text
                                           (faiss_index st) (texts st) (embedder st) (TOP_K env)) of
                                 Inl (Exception e) \<Rightarrow> Inl (Error e, 500)
                               | Inr retrieved \<Rightarrow> Inr (transcribed_text, retrieved))))))))"

definition process_audio_respond ::
  "('v, 's) env \<Rightarrow> string \<Rightarrow> (int \<times> 's \<times> string) list \<Rightarrow> body \<times> nat" where
  "process_audio_respond env transcribed_text retrieved =
     (let prompt = make_prompt (fmt4 env) transcribed_text retrieved 2000;
          response_text_raw = safe_generate env prompt;
          response_text = clean_response_text response_text_raw;
          formatted_response =
            ''=== AI Response ===\<newline>'' @ strip response_text @ ''\<newline>\<newline>''
            @ (if retrieved \<noteq> []
               then ''=== Top Source Verse(s) ===\<newline>''
                    @ format_sources (fmt4 env) (py_take (TOP_K env) retrieved)
               else ''(No verses retrieved.)\<newline>'');
          tts_bytes = generate_tts_audio env response_text ''piper''
      in (Turn \<lparr>transcription = transcribed_text,
                response = response_text,
                formatted_response = formatted_response,
                audio = (case tts_bytes of
                           None \<Rightarrow> None
                         | Some b \<Rightarrow> if b \<noteq> [] then Some (hex b) else None),
                response_raw = response_text_raw\<rparr>, 200))"

definition process_audio ::
  "('v, 's) env \<Rightarrow> ('v, 's) server_state \<Rightarrow> 8 word list \<Rightarrow> body \<times> nat" where
  "process_audio env st audio_bytes =
     (case process_audio_retrieve env st audio_bytes of
        Inl early \<Rightarrow> early
      | Inr (transcribed_text, retrieved) \<Rightarrow>
          process_audio_respond env transcribed_text retrieved)"

section \<open>The turn of \<open>server_faiss_semantic.py\<close>\<close>

text \<open>
  The second server keeps its own globals.  A loaded transcriber is its \<open>transcribe\<close>
  method, which gives the value of the key \<open>text\<close> of its result, if there is one; a loaded
  voice is its method \<open>synthesize_wav\<close> together with the WAV container it writes to, which
  gives the bytes of the file.  A dataframe of verses is its columns and its rows, a row
  giving under each column the text that \<open>str\<close> makes of the cell.  The comparison of a
  score with \<open>0.7\<close>, the score \<open>0.5\<close> and \<open>random.choice\<close> are parameters.  The calls to
  the libraries are recorded in the order in which they are made.  The intent and the
  verses exist only in a turn that is answered: they are \<open>None\<close> in a turn that ends the
  conversation.
\<close>

record verses =
  columns :: "string list"
  rows :: "(string \<Rightarrow> string) list"

record ('v, 's) faiss_state =
  whisper_model_fs :: "(16 word list \<Rightarrow> exn + string option) option"
  piper_voice_fs :: "(string \<Rightarrow> exn + 8 word list) option"
  gita_data_fs :: "verses option"
  faiss_index_fs :: "('v, 's) index option"
  sentence_model_fs :: "'v encoder option"

record ('v, 's) faiss_env =
  normalize_L2_fs :: "'v \<Rightarrow> 'v"
  random_choice :: "string list \<Rightarrow> string"
  score_0_5 :: 's
  exceeds_0_7 :: "'s \<Rightarrow> bool"

datatype 'v event =
    Transcribe "16 word list"
  | EncodeQuery string
  | SearchIndex 'v int
  | RandomChoice "string list"
  | SynthesizeWav string

definition EXIT_PHRASES :: "string list" where
  "EXIT_PHRASES = [''thank you'', ''thanks'', ''that's all'', ''nothing else'', ''goodbye'']"

definition FOLLOW_UP_PHRASES :: "string list" where
  "FOLLOW_UP_PHRASES =
     [''Is there anything else I can help you with?'',
      ''Would you like to explore this teaching further?'',
      ''Any other spiritual questions?'',
      ''Would you like more guidance on this topic?'']"

text \<open>The characters outside ASCII of the literals are written as their UTF-8 bytes.\<close>

definition folded_hands :: string where
  \<comment> \<open>U+1F64F\<close>
  "folded_hands = [CHR 0xF0, CHR 0x9F, CHR 0x99, CHR 0x8F]"

definition open_book :: string where
  \<comment> \<open>U+1F4D6\<close>
  "open_book = [CHR 0xF0, CHR 0x9F, CHR 0x93, CHR 0x96]"

definition check_mark :: string where
  \<comment> \<open>U+2705\<close>
  "check_mark = [CHR 0xE2, CHR 0x9C, CHR 0x85]"

definition FAREWELL :: string where
  "FAREWELL = folded_hands
     @ '' Thank you for seeking Gita wisdom. May you find peace and fulfillment on your spiritual journey. Om Shanti!''"

record 's verse_result =
  verse :: string
  similarity :: 's
  chapter_info :: string
  rank :: nat

definition fallback_verses :: "string list" where
  "fallback_verses =
     [''You have the right to perform your actions, but you are not entitled to the fruits of your actions. Never let the fruits of action be your motive, nor let your attachment be to inaction.'',
      ''For the soul there is neither birth nor death. It is not slain when the body is slain. The soul is unborn, eternal, permanent, and primeval.'',
      ''Better is your own dharma, though imperfectly performed, than the dharma of another well performed. Better is death in the performance of one's own dharma; the dharma of another is fraught with danger.'',
      ''When meditation is mastered, the mind is unwavering like the flame of a lamp in a windless place.'',
      ''Whatever you do, whatever you eat, whatever you offer in sacrifice, whatever you give away, whatever austerities you practice - do that as an offering to the Divine.'']"

definition get_fallback_verses ::
  "('v, 's) faiss_env \<Rightarrow> string \<Rightarrow> 'v event list \<times> 's verse_result list" where
  "get_fallback_verses env query =
     ([RandomChoice fallback_verses],
      [\<lparr>verse = random_choice env fallback_verses, similarity = score_0_5 env,
        chapter_info = [], rank = 1\<rparr>])"

fun verses_loop ::
  "verses \<Rightarrow> string \<Rightarrow> nat \<Rightarrow> ('s \<times> int) list \<Rightarrow> 's verse_result list
     \<Rightarrow> exn + 's verse_result list" where
  "verses_loop g verse_column i [] results = Inr results"
| "verses_loop g verse_column i ((sim, idx) # rest) results =
     (if idx < int (length (rows g))
      then (if idx < - int (length (rows g))
            then Inl (Exception ''single positional indexer is out-of-bounds'')
            else
              (let verse_data = rows g ! nat (if idx < 0 then int (length (rows g)) + idx else idx);
                   verse_text = verse_data verse_column;
                   info = (if ''chapter_number'' \<in> set (columns g)
                              \<and> ''chapter_verse'' \<in> set (columns g)
                           then '' ('' @ verse_data ''chapter_number'' @ '', ''
                                @ verse_data ''chapter_verse'' @ '')''
                           else [])
               in verses_loop g verse_column (i + 1) rest
                    (results @ [\<lparr>verse = verse_text, similarity = sim,
                                  chapter_info = info, rank = i + 1\<rparr>])))
      else verses_loop g verse_column (i + 1) rest results)"

definition find_relevant_verses ::
  "('v, 's) faiss_env \<Rightarrow> ('v, 's) faiss_state \<Rightarrow> string \<Rightarrow> int
     \<Rightarrow> 'v event list \<times> 's verse_result list" where
  "find_relevant_verses env st query top_k =
     (case (faiss_index_fs st, sentence_model_fs st, gita_data_fs st) of
        (Some search, Some encode, Some g) \<Rightarrow>
          (case encode query of
             Inl e \<Rightarrow>
               (let (ev, r) = get_fallback_verses env query in (EncodeQuery query # ev, r))
           | Inr emb \<Rightarrow>
              (let query_embedding = normalize_L2_fs env emb;
                   called = [EncodeQuery query, SearchIndex query_embedding top_k]
               in (case search query_embedding top_k of
                     Inl e \<Rightarrow> (let (ev, r) = get_fallback_verses env query in (called @ ev, r))
                   | Inr (similarities, indices) \<Rightarrow>
                      (case (if ''translation'' \<in> set (columns g) then Inr ''translation''
                             else if columns g = []
                             then Inl (Exception ''index -1 is out of bounds for axis 0 with size 0'')
                             else Inr (last (columns g))) of
                         Inl e \<Rightarrow>
                           (let (ev, r) = get_fallback_verses env query in (called @ ev, r))
                       | Inr verse_column \<Rightarrow>
                          (case verses_loop g verse_column 0 (zip similarities indices) [] of
                             Inl e \<Rightarrow>
                               (let (ev, r) = get_fallback_verses env query in (called @ ev, r))
                           | Inr results \<Rightarrow> (called, results))))))
      | _ \<Rightarrow> get_fallback_verses env query)"

definition intents :: "(string \<times> string list) list" where
  "intents =
     [(''tiredness_laziness'', [''lazy'', ''tired'', ''fatigue'', ''exhausted'', ''unmotivated'', ''lethargy'', ''energy'', ''motivation'', ''procrastination'', ''weakness'']),
      (''sadness_depression'', [''sad'', ''sadness'', ''depressed'', ''depression'', ''sorrow'', ''grief'', ''unhappy'', ''melancholy'', ''down'', ''blue'', ''hopeless'']),
      (''fear_anxiety'', [''fear'', ''afraid'', ''scared'', ''anxiety'', ''anxious'', ''worry'', ''worried'', ''panic'', ''nervous'', ''frightened'', ''terror'']),
      (''life_purpose'', [''purpose'', ''meaning'', ''direction'', ''path'', ''calling'', ''destiny'', ''goal'', ''mission'', ''dharma'', ''why am i here'', ''what should i do'']),
      (''anger_conflict'', [''angry'', ''anger'', ''mad'', ''furious'', ''conflict'', ''fight'', ''argument'', ''frustrated'', ''rage'', ''hate'', ''resentment'']),
      (''attachment_loss'', [''attachment'', ''loss'', ''lost'', ''letting go'', ''detachment'', ''possession'', ''clinging'', ''breakup'', ''death'', ''separation'']),
      (''doubt_confusion'', [''doubt'', ''confused'', ''confusion'', ''uncertain'', ''unsure'', ''lost'', ''decision'', ''choice'', ''dilemma'']),
      (''spiritual_practice'', [''meditation'', ''prayer'', ''devotion'', ''worship'', ''spiritual'', ''enlightenment'', ''moksha'', ''liberation'']),
      (''relationships'', [''relationship'', ''love'', ''family'', ''friends'', ''marriage'', ''parents'', ''children'', ''society'']),
      (''work_duty'', [''work'', ''job'', ''career'', ''duty'', ''responsibility'', ''service'', ''profession'', ''business''])]"

definition understand_question_intent :: "string \<Rightarrow> string \<times> string list" where
  "understand_question_intent query =
     (let query_lower = lower query;
          detected_intents =
            map fst (filter (\<lambda>(intent, keywords).
                               list_ex (\<lambda>keyword. is_in keyword query_lower) keywords) intents);
          primary_intent = (if detected_intents \<noteq> [] then hd detected_intents else ''general'')
      in (primary_intent, detected_intents))"

definition intent_context :: "(string \<times> string) list" where
  "intent_context =
     [(''tiredness_laziness'', ''Krishna teaches that laziness comes from attachment to results and fear of failure. The solution is not inaction, but action without attachment.''),
      (''sadness_depression'', ''The Gita reminds us that our true nature is the eternal soul, beyond all temporary sorrows. This wisdom brings lasting peace.''),
      (''fear_anxiety'', ''Fear arises from the illusion of separateness. When you realize your connection to the Divine, fear naturally dissolves.''),
      (''life_purpose'', ''Your dharma (life purpose) is unique to your nature and circumstances. The Gita guides you to discover and follow your authentic path.''),
      (''anger_conflict'', ''Anger clouds judgment and leads to poor decisions. The Gita teaches emotional mastery through spiritual understanding.''),
      (''attachment_loss'', ''Attachment to temporary things causes suffering. True joy comes from loving without possessing and giving without expecting.''),
      (''doubt_confusion'', ''When confused, seek wisdom from sacred texts and wise teachers. The Divine guides those who sincerely seek truth.''),
      (''spiritual_practice'', ''Regular spiritual practice purifies the mind and reveals your true nature. Consistency is more important than intensity.''),
      (''relationships'', ''See the Divine in all beings. Love unconditionally, serve selflessly, and maintain your inner peace regardless of others' actions.''),
      (''work_duty'', ''Perform your work as worship. Excellence in action, without attachment to results, leads to both success and spiritual growth.'')]"

definition generate_contextual_response ::
  "('v, 's) faiss_env \<Rightarrow> string \<Rightarrow> 's verse_result list \<Rightarrow> string \<Rightarrow> string" where
  "generate_contextual_response env query verse_results intent =
     (case verse_results of
        [] \<Rightarrow> ''The Bhagavad Gita teaches us that all suffering comes from ignorance of our true nature. Seek wisdom through righteous action, devotion, and self-knowledge.''
      | best_verse # others \<Rightarrow>
         (let verse_text = verse best_verse;
              context = (case map_of intent_context intent of
                           Some c \<Rightarrow> c
                         | None \<Rightarrow> ''The eternal wisdom of the Gita provides guidance for all of life's challenges.'');
              response =
                folded_hands @ '' **Krishna's Guidance:**\<newline>\<newline>''
                @ ''**Verse'' @ chapter_info best_verse @ '':** '' @ [CHR 0x22] @ take 300 verse_text
                @ (if length verse_text > 300 then ''...'' else []) @ [CHR 0x22] @ ''\<newline>\<newline>''
                @ ''**Understanding:** '' @ context @ ''\<newline>\<newline>''
                @ ''**Practical Application:** Focus on your sincere effort rather than worrying about outcomes. Every step taken with devotion and wisdom brings you closer to peace and fulfillment.''
          in if length verse_results > 1 \<and> exceeds_0_7 env (similarity (hd others))
             then response @ ''\<newline>\<newline>**Related Teaching:** '' @ [CHR 0x22]
                  @ take 200 (verse (hd others)) @ ''...'' @ [CHR 0x22]
             else response))"

definition synthesize_speech ::
  "('v, 's) faiss_state \<Rightarrow> string \<Rightarrow> 'v event list \<times> 8 word list option" where
  "synthesize_speech st text =
     (case piper_voice_fs st of
        None \<Rightarrow> ([], None)
      | Some synthesize_wav \<Rightarrow>
         (let clean_text = replace ''*'' [] (replace folded_hands [] (replace ''**'' [] text));
              clean_text = strip (replace check_mark [] (replace open_book [] clean_text));
              clean_text = (if length clean_text > 1000 then take 1000 clean_text @ ''...''
                            else clean_text)
          in ([SynthesizeWav clean_text],
              case synthesize_wav clean_text of Inl e \<Rightarrow> None | Inr wav_data \<Rightarrow> Some wav_data)))"

record reply =
  transcription_fs :: string
  response_fs :: string
  audio_fs :: "string option"
  end_conversation :: bool
  intent_fs :: string
  verse_count :: nat

datatype body_fs = ErrorReply string | Reply reply

definition process_audio_fs ::
  "('v, 's) faiss_env \<Rightarrow> ('v, 's) faiss_state \<Rightarrow> 8 word list
     \<Rightarrow> 'v event list \<times> body_fs \<times> nat" where
  "process_audio_fs env st audio_data =
     (if audio_data = [] then ([], ErrorReply ''No audio data'', 400)
      else
       (let audio_data = (if length audio_data mod 2 \<noteq> 0 then butlast audio_data else audio_data)
        in (case frombuffer audio_data of
              Inl (Exception e) \<Rightarrow> ([], ErrorReply e, 500)
            | Inr audio_np \<Rightarrow>
               (case whisper_model_fs st of
                  None \<Rightarrow> ([], ErrorReply (quoted ''NoneType'' @ '' object has no attribute ''
                                             @ quoted ''transcribe''), 500)
                | Some transcribe \<Rightarrow>
                   (case transcribe audio_np of
                      Inl (Exception e) \<Rightarrow> ([Transcribe audio_np], ErrorReply e, 500)
                    | Inr None \<Rightarrow> ([Transcribe audio_np], ErrorReply (quoted ''text''), 500)
                    | Inr (Some result_text) \<Rightarrow>
                       (let transcription = strip result_text;
                            end_conversation =
                              list_ex (\<lambda>phrase. is_in phrase (lower transcription)) EXIT_PHRASES;
                            (ev, response_text, answered) =
                              (if end_conversation then ([], FAREWELL, None)
                               else
                                (let (primary_intent, all_intents) =
                                       understand_question_intent transcription;
                                     (ev, verse_results) =
                                       find_relevant_verses env st transcription 3;
                                     response_text =
                                       generate_contextual_response env transcription
                                         verse_results primary_intent
                                 in (ev @ [RandomChoice FOLLOW_UP_PHRASES],
                                     response_text @ ''\<newline>\<newline>'' @ random_choice env FOLLOW_UP_PHRASES,
                                     Some (primary_intent, verse_results))));
                            (ev_tts, audio_bytes) = synthesize_speech st response_text
                        in (Transcribe audio_np # ev @ ev_tts,
                            Reply \<lparr>transcription_fs = transcription,
                                   response_fs = response_text,
                                   audio_fs = (case audio_bytes of
                                                 None \<Rightarrow> None
                                               | Some b \<Rightarrow> if b \<noteq> [] then Some (hex b) else None),
                                   end_conversation = end_conversation,
                                   intent_fs = (case answered of
                                                  Some (primary_intent, verse_results) \<Rightarrow> primary_intent
                                                | None \<Rightarrow> ''goodbye''),
                                   verse_count = (case answered of
                                                    Some (primary_intent, verse_results) \<Rightarrow>
                                                      length verse_results
                                                  | None \<Rightarrow> 0)\<rparr>,
                            200)))))))"

section \<open>Notions used in the statements\<close>






definition synthesis_fails :: "('v, 's) env \<Rightarrow> string \<Rightarrow> bool" where
  \<comment> \<open>every synthesis backend fails on the text: Piper is not installed, or its voice does
      not load, or it raises or gives no bytes; pyttsx3 raises; SAPI raises\<close>
  "synthesis_fails env text =
     ((\<not> HAS_PIPER env \<or> \<not> piper_init_once env
        \<or> (case piper_synthesize_to_wav_bytes env text of
              Inl e \<Rightarrow> True
            | Inr wav_bytes \<Rightarrow> wav_bytes = []))
      \<and> isl (pyttsx3_save env text) \<and> isl (sapi_speak env text))"

section \<open>Example inputs\<close>


definition example_search :: "(nat, nat) index" where
  \<comment> \<open>an index of three vectors that, as FAISS does, pads with the position -1\<close>
  "example_search v k =
     (if k \<le> 0 then Inl (Exception ''k > 0'')
      else Inr (take (nat k) [9, 8, 7, 0, 0], take (nat k) [1, 7, 0, - 1, - 1]))"

definition example_encode :: "nat encoder" where
  "example_encode q = Inr (length q)"

definition example_whisper :: whisper where
  "example_whisper =
     \<lparr>transcribe_array = (\<lambda>a. Inl (Exception ''no array input'')),
      transcribe_wav = (\<lambda>a. Inr (Some '' What is duty? ''))\<rparr>"

definition example_state :: "(nat, nat) server_state" where
  "example_state =
     \<lparr>whisper_model = Some example_whisper, embedder = Some example_encode,
      faiss_index = Some example_search, texts = Some [''A'', ''B'', ''C''],
      df = Some [(''chapter'', False), (''translation'', True)]\<rparr>"

definition example_env :: "(nat, nat) env" where
  \<comment> \<open>a server on which every generation backend and every synthesis backend raises\<close>
  "example_env =
     \<lparr>CHANNELS = 1, TOP_K = 5, HAS_OLLAMA = True, HAS_PIPER = True,
      normalize_L2 = id, fmt4 = digits,
      generate_with_ollama = (\<lambda>p. Inl (Exception ''connection refused'')),
      generate_with_transformers = (\<lambda>p. Inl (Exception ''out of memory'')),
      piper_init_once = False,
      piper_synthesize_to_wav_bytes = (\<lambda>t. Inl (Exception ''Piper voice not initialized'')),
      pyttsx3_save = (\<lambda>t. Inl (Exception ''no driver'')),
      sapi_speak = (\<lambda>t. Inl (Exception ''No module named pythoncom''))\<rparr>"

definition example_body :: "8 word list" where
  "example_body = [0x01, 0x00, 0xFF, 0x7F]"



definition example_faiss_state :: "(nat, nat) faiss_state" where
  "example_faiss_state =
     \<lparr>whisper_model_fs = Some (\<lambda>a. Inr (Some '' OK, Thank You! '')),
      piper_voice_fs = Some (\<lambda>t. Inr [0x52, 0x49]),
      gita_data_fs = None,
      faiss_index_fs = Some example_search,
      sentence_model_fs = Some example_encode\<rparr>"

definition example_faiss_env :: "(nat, nat) faiss_env" where
  "example_faiss_env =
     \<lparr>normalize_L2_fs = id, random_choice = hd, score_0_5 = 5, exceeds_0_7 = (\<lambda>s. 7 < s)\<rparr>"

section \<open>The post-processor on the example of the specification\<close>

text \<open>
  C3: on the text \<open>Action (id=12, score=0.8421) matters. *Do* it. [id=7]\<close> the
  post-processor returns exactly \<open>Action matters. Do it.\<close>: both citation tokens and the
  asterisks are gone, each run of spaces is one space, and the text is trimmed.
\<close>

theorem clean_response_text_example:
  "clean_response_text ''Action (id=12, score=0.8421) matters. *Do* it. [id=7]''
     = ''Action matters. Do it.''"
  by code_simp

section \<open>The context budget of the prompt\<close>






section \<open>Retrieval for a blank query\<close>

lemma strip_blank: "(\<forall>c\<in>set s. is_space c) \<Longrightarrow> strip s = []"
proof -
  assume "\<forall>c\<in>set s. is_space c"
  then have "dropWhile is_space s = []" by (simp only: dropWhile_eq_Nil_conv)
  then show ?thesis unfolding strip_def by (simp only: rev.simps dropWhile.simps)
qed

text \<open>
  C6: for a query that is empty or consists of whitespace only, and for every \<open>top_k\<close>,
  \<open>retrieve\<close> returns the empty list, raises nothing, and calls neither the encoder nor
  the index, whatever they are.
\<close>

theorem retrieve_blank_query:
  assumes "\<forall>c\<in>set query. is_space c"
  shows "retrieve nrm query index texts_list embedder_local top_k = ([], Inr [])"
  using assms by (simp add: retrieve_def strip_blank)

theorem retrieve_blank_query_witness:
  "retrieve id [CHR '' '', CHR 0x09, CHR 0x0A] (Some example_search) (Some [''A'', ''B'', ''C''])
     (Some example_encode) 5 = ([], Inr [])"
proof -
  have h: "\<forall>c\<in>set [CHR '' '', CHR 0x09, CHR 0x0A]. is_space c" by (simp add: is_space_def)
  show ?thesis by (rule retrieve_blank_query[OF h])
qed

section \<open>Retrieval results\<close>

lemma retrieve_loop_props:
  "retrieve_loop (Some ts) zs acc = Inr results \<Longrightarrow>
   length results \<le> length acc + length zs \<and>
   (\<forall>r\<in>set results. r \<in> set acc \<or>
       (case r of (idx, score, tx) \<Rightarrow> 0 \<le> idx \<and> idx < int (length ts) \<and> tx = ts ! nat idx))"
proof (induction zs arbitrary: acc)
  case Nil
  then show ?case by auto
next
  case (Cons z zs)
  obtain idx score where z: "z = (idx, score)" by (cases z) auto
  show ?case
  proof (cases "0 \<le> idx \<and> idx < int (length ts)")
    case True
    with Cons.prems z
    have "retrieve_loop (Some ts) zs (acc @ [(idx, score, ts ! nat idx)]) = Inr results" by simp
    from Cons.IH[OF this] True show ?thesis by auto
  next
    case False
    with Cons.prems z have "retrieve_loop (Some ts) zs acc = Inr results" by auto
    from Cons.IH[OF this] show ?thesis by auto
  qed
qed

text \<open>
  C7: for every query that is not empty and every \<open>top_k\<close>, the list that \<open>retrieve\<close>
  returns has at most \<open>top_k\<close> elements, every identifier in it is at least 0 and below
  the size of the corpus, a position outside this range being left out, and every text in
  it is the text of the corpus at its identifier.  The queries meant are those that get
  past the guard, which have a character that is not whitespace; for the others, which
  are answered with the empty list, the statement holds as well when \<open>top_k\<close> is not
  negative.  The index is a library: that its search returns at most \<open>top_k\<close> positions
  is what the length of the list rests on.
\<close>

theorem retrieve_results:
  assumes contract: "\<And>v k ds ps. search v k = Inr (ds, ps) \<Longrightarrow> int (length ps) \<le> k"
    and returned: "retrieve nrm query (Some search) (Some ts) embedder_local top_k
                     = (calls, Inr results)"
    and domain: "strip query \<noteq> [] \<or> 0 \<le> top_k"
  shows "int (length results) \<le> top_k
    \<and> (\<forall>r\<in>set results.
          0 \<le> fst r \<and> fst r < int (length ts) \<and> snd (snd r) = ts ! nat (fst r))"
proof (cases "query = [] \<or> strip query = []")
  case True
  with returned have "results = []" by (simp add: retrieve_def)
  moreover from True domain have "0 \<le> top_k" by (auto simp: strip_def)
  ultimately show ?thesis by simp
next
  case False
  with returned obtain encode where e: "embedder_local = Some encode"
    by (cases embedder_local) (auto simp: retrieve_def)
  with returned False obtain emb where emb: "encode query = Inr emb"
    by (cases "encode query") (auto simp: retrieve_def)
  with returned False e obtain ds ps where s: "search (nrm emb) top_k = Inr (ds, ps)"
    by (cases "search (nrm emb) top_k") (auto simp: retrieve_def Let_def)
  with returned False e emb
  have loop: "retrieve_loop (Some ts) (zip ps ds) [] = Inr results"
    by (simp add: retrieve_def Let_def)
  from retrieve_loop_props[OF loop]
  have len: "length results \<le> length (zip ps ds)"
    and each: "\<forall>r\<in>set results.
       (case r of (idx, score, tx) \<Rightarrow> 0 \<le> idx \<and> idx < int (length ts) \<and> tx = ts ! nat idx)"
    by auto
  from len have "length results \<le> length ps" by simp
  with contract[OF s] have "int (length results) \<le> top_k" by linarith
  moreover from each
  have "\<forall>r\<in>set results. 0 \<le> fst r \<and> fst r < int (length ts) \<and> snd (snd r) = ts ! nat (fst r)"
    by (auto split: prod.splits)
  ultimately show ?thesis by simp
qed

theorem retrieve_results_witness:
  "int (length (projr (snd (retrieve id ''duty'' (Some example_search)
      (Some [''A'', ''B'', ''C'']) (Some example_encode) 2)))) \<le> 2
   \<and> snd (retrieve id ''duty'' (Some example_search)
      (Some [''A'', ''B'', ''C'']) (Some example_encode) 2) = Inr [(1, 9, ''B'')]"
proof -
  have c: "\<And>v k ds ps. example_search v k = Inr (ds, ps) \<Longrightarrow> int (length ps) \<le> k"
    by (auto simp: example_search_def split: if_splits)
  have r: "retrieve id ''duty'' (Some example_search) (Some [''A'', ''B'', ''C''])
             (Some example_encode) 2
           = ([Encode ''duty'', Search 4 2], Inr [(1, 9, ''B'')])"
    by (simp add: retrieve_def strip_def is_space_def example_encode_def example_search_def)
  have d: "strip ''duty'' \<noteq> [] \<or> (0::int) \<le> 2" by simp
  from retrieve_results[of example_search, OF c r d] r show ?thesis by simp
qed

section \<open>Idempotence of the post-processor\<close>


















section \<open>Failure of generation and of synthesis\<close>

lemma clean_apology: "clean_response_text APOLOGY = APOLOGY"
  by code_simp

lemma strip_apology: "strip APOLOGY = APOLOGY"
  by code_simp

text \<open>
  C4: if the preferred generation backend, Ollama, and the fallback, transformers, both
  raise, \<open>safe_generate\<close> returns the fixed apology and raises nothing.  A turn that has
  got as far as the generation (the transcriber is loaded, the body decodes, there is a
  transcription, the retrieval returns) is then answered with status 200, with the
  apology as \<open>response\<close>, which the post-processor leaves as it is, and as \<open>response_raw\<close>.
\<close>

theorem generation_failure:
  "(isl (generate_with_ollama env p) \<and> isl (generate_with_transformers env p)
      \<longrightarrow> safe_generate env p = APOLOGY)
   \<and> (process_audio_retrieve env st audio_bytes = Inr (transcribed_text, retrieved)
        \<and> isl (generate_with_ollama env (make_prompt (fmt4 env) transcribed_text retrieved 2000))
        \<and> isl (generate_with_transformers env
                  (make_prompt (fmt4 env) transcribed_text retrieved 2000))
      \<longrightarrow> process_audio env st audio_bytes =
            (Turn \<lparr>transcription = transcribed_text,
                   response = APOLOGY,
                   formatted_response =
                     ''=== AI Response ===\<newline>'' @ APOLOGY @ ''\<newline>\<newline>''
                     @ (if retrieved \<noteq> []
                        then ''=== Top Source Verse(s) ===\<newline>''
                             @ format_sources (fmt4 env) (py_take (TOP_K env) retrieved)
                        else ''(No verses retrieved.)\<newline>''),
                   audio = (case generate_tts_audio env APOLOGY ''piper'' of
                              None \<Rightarrow> None
                            | Some b \<Rightarrow> if b \<noteq> [] then Some (hex b) else None),
                   response_raw = APOLOGY\<rparr>, 200))"
proof -
  have gen: "safe_generate env q = APOLOGY"
    if "isl (generate_with_ollama env q)" and "isl (generate_with_transformers env q)" for q
    using that by (auto simp: safe_generate_def isl_def)
  show ?thesis
    by (auto simp: gen process_audio_def process_audio_respond_def Let_def
          clean_apology strip_apology)
qed

theorem generation_failure_witness:
  "process_audio example_env example_state example_body =
     (Turn \<lparr>transcription = ''What is duty?'',
            response = APOLOGY,
            formatted_response =
              ''=== AI Response ===\<newline>'' @ APOLOGY
              @ ''\<newline>\<newline>=== Top Source Verse(s) ===\<newline>''
              @ ''\<newline>(id=1, score=9)\<newline>B\<newline>---\<newline>\<newline>(id=0, score=7)\<newline>A\<newline>---\<newline>'',
            audio = None,
            response_raw = APOLOGY\<rparr>, 200)"
proof -
  have r: "process_audio_retrieve example_env example_state example_body
           = Inr (''What is duty?'', [(1, 9, ''B''), (0, 7, ''A'')])"
    by (simp add: process_audio_retrieve_def example_env_def example_state_def example_body_def
          example_whisper_def frombuffer_def transcribe_request_def select_text_col_def
          retrieve_def strip_def is_space_def example_encode_def example_search_def Let_def)
  have o: "isl (generate_with_ollama example_env
                  (make_prompt (fmt4 example_env) ''What is duty?'' [(1, 9, ''B''), (0, 7, ''A'')] 2000))"
    by (simp add: example_env_def)
  have t: "isl (generate_with_transformers example_env
                  (make_prompt (fmt4 example_env) ''What is duty?'' [(1, 9, ''B''), (0, 7, ''A'')] 2000))"
    by (simp add: example_env_def)
  have tts: "generate_tts_audio example_env APOLOGY ''piper'' = None"
    by (simp add: generate_tts_audio_def example_env_def)
  have src: "format_sources (fmt4 example_env) (py_take (TOP_K example_env) [(1, 9, ''B''), (0, 7, ''A'')])
             = ''\<newline>(id=1, score=9)\<newline>B\<newline>---\<newline>\<newline>(id=0, score=7)\<newline>A\<newline>---\<newline>''"
    by (simp add: format_sources_def py_take_def example_env_def str_int_def digits.simps)
  from generation_failure[of example_env _ example_state example_body "''What is duty?''"
         "[(1, 9, ''B''), (0, 7, ''A'')]"] r o t
  have "process_audio example_env example_state example_body =
          (Turn \<lparr>transcription = ''What is duty?'',
                 response = APOLOGY,
                 formatted_response =
                   ''=== AI Response ===\<newline>'' @ APOLOGY @ ''\<newline>\<newline>''
                   @ (if [(1, 9, ''B''), (0, 7, ''A'')] \<noteq> ([] :: (int \<times> nat \<times> string) list)
                      then ''=== Top Source Verse(s) ===\<newline>''
                           @ format_sources (fmt4 example_env)
                               (py_take (TOP_K example_env) [(1, 9, ''B''), (0, 7, ''A'')])
                      else ''(No verses retrieved.)\<newline>''),
                 audio = (case generate_tts_audio example_env APOLOGY ''piper'' of
                            None \<Rightarrow> None
                          | Some b \<Rightarrow> if b \<noteq> [] then Some (hex b) else None),
                 response_raw = APOLOGY\<rparr>, 200)"
    by blast
  then show ?thesis by (simp add: tts src)
qed

text \<open>
  C5: speech synthesis is best effort.  If every synthesis backend fails on a text, that
  is, Piper is not installed or does not load its voice or raises or gives no bytes,
  pyttsx3 raises and SAPI raises, then \<open>generate_tts_audio\<close> returns \<open>None\<close>.  A turn that
  has got as far as the generation is answered with status 200 whatever the synthesis
  backends do, and with \<open>audio\<close> null when every one of them fails on the response.
\<close>

theorem synthesis_failure:
  "(synthesis_fails env text \<longrightarrow> generate_tts_audio env text preferred = None)
   \<and> (process_audio_retrieve env st audio_bytes = Inr (transcribed_text, retrieved)
      \<longrightarrow> (\<exists>t. process_audio env st audio_bytes = (Turn t, 200)
              \<and> transcription t = transcribed_text
              \<and> response t = clean_response_text
                     (safe_generate env (make_prompt (fmt4 env) transcribed_text retrieved 2000))
              \<and> (synthesis_fails env (response t) \<longrightarrow> audio t = None)))"
proof -
  have tts: "generate_tts_audio env x pref = None" if "synthesis_fails env x" for x pref
    using that
    by (auto simp: synthesis_fails_def generate_tts_audio_def isl_def split: sum.splits)
  show ?thesis
    by (auto simp: tts process_audio_def process_audio_respond_def Let_def)
qed

theorem synthesis_failure_witness:
  "synthesis_fails example_env APOLOGY
   \<and> generate_tts_audio example_env APOLOGY ''piper'' = None
   \<and> snd (process_audio example_env example_state example_body) = 200"
proof -
  have f: "synthesis_fails example_env APOLOGY"
    by (simp add: synthesis_fails_def example_env_def)
  have r: "process_audio_retrieve example_env example_state example_body
           = Inr (''What is duty?'', [(1, 9, ''B''), (0, 7, ''A'')])"
    by (simp add: process_audio_retrieve_def example_env_def example_state_def example_body_def
          example_whisper_def frombuffer_def transcribe_request_def select_text_col_def
          retrieve_def strip_def is_space_def example_encode_def example_search_def Let_def)
  from synthesis_failure[of example_env APOLOGY "''piper''" example_state example_body
         "''What is duty?''" "[(1, 9, ''B''), (0, 7, ''A'')]"] f r
  show ?thesis by auto
qed

section \<open>The health endpoint\<close>




section \<open>The second server: decoding the body and ending the conversation\<close>

lemma length_int16_pairs: "length (int16_pairs bs) = length bs div 2"
  by (induction bs rule: int16_pairs.induct) simp_all

lemma int16_pairs_butlast: "odd (length bs) \<Longrightarrow> int16_pairs (butlast bs) = int16_pairs bs"
proof (induction bs rule: int16_pairs.induct)
  case (1 lo hi rest)
  then have "rest \<noteq> []" by auto
  with 1 show ?case by simp
qed simp_all

lemma int16_pairs_nth:
  "i < length bs div 2 \<Longrightarrow>
   int16_pairs bs ! i = (ucast (bs ! (2 * i)) OR push_bit 8 (ucast (bs ! (2 * i + 1))))"
proof (induction bs arbitrary: i rule: int16_pairs.induct)
  case (1 lo hi rest)
  then show ?case by (cases i) simp_all
qed simp_all

lemma unat_byte_less: "unat (x :: 8 word) < 256"
  using unsigned_less[of x, where ?'a = nat] by simp

lemma unat_ucast_byte: "unat (ucast (lo :: 8 word) :: 16 word) = unat lo"
proof -
  have "unat lo < 2 ^ 16" using unat_byte_less[of lo] by simp
  then show ?thesis by (simp add: unsigned_ucast_eq take_bit_nat_eq_self)
qed

lemma unat_high_byte: "unat (push_bit 8 (ucast (hi :: 8 word)) :: 16 word) = 256 * unat hi"
proof -
  have "unat (push_bit 8 (ucast hi) :: 16 word)
          = (unat (ucast hi :: 16 word) * 2 ^ 8) mod 2 ^ 16"
    by (simp add: push_bit_eq_mult unat_word_ariths)
  also have "\<dots> = (unat hi * 256) mod 65536" by (simp add: unat_ucast_byte)
  also have "\<dots> = unat hi * 256" using unat_byte_less[of hi] by simp
  finally show ?thesis by simp
qed

lemma or_is_add:
  "(ucast (lo :: 8 word) :: 16 word) OR push_bit 8 (ucast (hi :: 8 word))
     = ucast lo + push_bit 8 (ucast hi)"
proof (rule disjunctive_add[symmetric])
  fix n
  show "\<not> bit (ucast lo :: 16 word) n \<or> \<not> bit (push_bit 8 (ucast hi) :: 16 word) n"
    by (auto simp: bit_simps dest: bit_imp_le_length)
qed

lemma little_endian:
  "unat ((ucast (lo :: 8 word) :: 16 word) OR push_bit 8 (ucast (hi :: 8 word)))
     = unat lo + 256 * unat hi"
proof -
  have "unat ((ucast lo :: 16 word) + push_bit 8 (ucast hi))
          = (unat lo + 256 * unat hi) mod 2 ^ 16"
    by (simp add: unat_word_ariths unat_ucast_byte unat_high_byte)
  also have "\<dots> = unat lo + 256 * unat hi"
    using unat_byte_less[of lo] unat_byte_less[of hi] by simp
  finally show ?thesis by (simp add: or_is_add)
qed

lemma decoded:
  "frombuffer (if length bs mod 2 \<noteq> 0 then butlast bs else bs) = Inr (int16_pairs bs)"
proof (cases "odd (length bs)")
  case True
  then have "even (length (butlast bs))" by (cases bs rule: rev_cases) simp_all
  with True show ?thesis by (simp add: frombuffer_def int16_pairs_butlast odd_iff_mod_2_eq_one)
next
  case False
  then show ?thesis by (simp add: frombuffer_def)
qed

lemma is_in_iff: "is_in sub s \<longleftrightarrow> (\<exists>ps ss. s = ps @ sub @ ss)"
proof (induction s)
  case Nil
  show ?case by auto
next
  case (Cons c cs)
  show ?case
  proof
    assume "is_in sub (c # cs)"
    then consider "prefix sub (c # cs)" | "is_in sub cs" by auto
    then show "\<exists>ps ss. c # cs = ps @ sub @ ss"
    proof cases
      case 1
      then obtain ss where "c # cs = sub @ ss" by (auto simp: prefix_def)
      then have "c # cs = [] @ sub @ ss" by simp
      then show ?thesis by blast
    next
      case 2
      with Cons obtain ps ss where "cs = ps @ sub @ ss" by auto
      then have "c # cs = (c # ps) @ sub @ ss" by simp
      then show ?thesis by blast
    qed
  next
    assume "\<exists>ps ss. c # cs = ps @ sub @ ss"
    then obtain ps ss where e: "c # cs = ps @ sub @ ss" by auto
    show "is_in sub (c # cs)"
    proof (cases ps)
      case Nil
      with e have "prefix sub (c # cs)" by (simp add: prefix_def)
      then show ?thesis by simp
    next
      case (Cons d ds)
      with e have "cs = ds @ sub @ ss" by simp
      with Cons.IH show ?thesis by auto
    qed
  qed
qed

lemma farewell_synthesis:
  "synthesize_speech st FAREWELL =
     (case piper_voice_fs st of
        None \<Rightarrow> ([], None)
      | Some synthesize_wav \<Rightarrow>
          ([SynthesizeWav ''Thank you for seeking Gita wisdom. May you find peace and fulfillment on your spiritual journey. Om Shanti!''],
           case synthesize_wav ''Thank you for seeking Gita wisdom. May you find peace and fulfillment on your spiritual journey. Om Shanti!'' of
             Inl e \<Rightarrow> None | Inr wav_data \<Rightarrow> Some wav_data))"
proof -
  have c: "strip (replace check_mark [] (replace open_book []
             (replace ''*'' [] (replace folded_hands [] (replace ''**'' [] FAREWELL)))))
           = ''Thank you for seeking Gita wisdom. May you find peace and fulfillment on your spiritual journey. Om Shanti!''"
    by code_simp
  show ?thesis by (simp add: synthesize_speech_def c Let_def split: option.splits)
qed


text \<open>
  C10: a body with an odd number of bytes loses its last byte before it is decoded.  For
  every body of \<open>n\<close> bytes that is not empty, the decoding raises nothing and gives
  \<open>n div 2\<close> samples, sample \<open>i\<close> being the byte \<open>2 i\<close> plus 256 times the byte \<open>2 i + 1\<close>,
  as 16-bit little-endian samples are; these samples are what a loaded transcriber is
  called on.
\<close>

theorem odd_body_decoded:
  assumes "audio_data \<noteq> []"
  shows "frombuffer (if length audio_data mod 2 \<noteq> 0 then butlast audio_data else audio_data)
           = Inr (int16_pairs audio_data)
    \<and> length (int16_pairs audio_data) = length audio_data div 2
    \<and> (\<forall>i < length audio_data div 2.
          unat (int16_pairs audio_data ! i)
            = unat (audio_data ! (2 * i)) + 256 * unat (audio_data ! (2 * i + 1)))
    \<and> (whisper_model_fs st = Some transcribe \<longrightarrow>
          (\<exists>rest. fst (process_audio_fs env st audio_data)
                    = Transcribe (int16_pairs audio_data) # rest))"
proof -
  have each: "\<forall>i < length audio_data div 2.
          unat (int16_pairs audio_data ! i)
            = unat (audio_data ! (2 * i)) + 256 * unat (audio_data ! (2 * i + 1))"
    by (simp add: int16_pairs_nth little_endian)
  have called: "\<exists>rest. fst (process_audio_fs env st audio_data)
                    = Transcribe (int16_pairs audio_data) # rest"
    if "whisper_model_fs st = Some transcribe"
    unfolding process_audio_fs_def Let_def decoded
    using that assms
    by (simp split: sum.splits option.splits exn.splits prod.splits)
  from decoded length_int16_pairs each called show ?thesis by blast
qed

theorem odd_body_decoded_witness:
  "frombuffer (butlast [0x01, 0x02, 0xFF :: 8 word]) = Inr (int16_pairs [0x01, 0x02, 0xFF])
   \<and> length (int16_pairs [0x01, 0x02, 0xFF :: 8 word]) = 1
   \<and> unat (int16_pairs [0x01, 0x02, 0xFF :: 8 word] ! 0) = 513
   \<and> hd (fst (process_audio_fs example_faiss_env example_faiss_state [0x01, 0x02, 0xFF]))
       = Transcribe (int16_pairs [0x01, 0x02, 0xFF])"
proof -
  have h: "[0x01, 0x02, 0xFF :: 8 word] \<noteq> []" by simp
  have w: "whisper_model_fs example_faiss_state = Some (\<lambda>a. Inr (Some '' OK, Thank You! ''))"
    by (simp add: example_faiss_state_def)
  from odd_body_decoded[OF h, of example_faiss_state "\<lambda>a. Inr (Some '' OK, Thank You! '')"
         example_faiss_env] w
  have "frombuffer (if length [0x01, 0x02, 0xFF :: 8 word] mod 2 \<noteq> 0
                    then butlast [0x01, 0x02, 0xFF] else [0x01, 0x02, 0xFF])
          = Inr (int16_pairs [0x01, 0x02, 0xFF])"
    and "length (int16_pairs [0x01, 0x02, 0xFF :: 8 word]) = length [0x01, 0x02, 0xFF :: 8 word] div 2"
    and "\<forall>i < length [0x01, 0x02, 0xFF :: 8 word] div 2.
          unat (int16_pairs [0x01, 0x02, 0xFF :: 8 word] ! i)
            = unat ([0x01, 0x02, 0xFF :: 8 word] ! (2 * i))
              + 256 * unat ([0x01, 0x02, 0xFF :: 8 word] ! (2 * i + 1))"
    and "\<exists>rest. fst (process_audio_fs example_faiss_env example_faiss_state [0x01, 0x02, 0xFF])
                  = Transcribe (int16_pairs [0x01, 0x02, 0xFF]) # rest"
    by blast+
  then show ?thesis by auto
qed

text \<open>
  C8: a turn whose transcription contains one of the exit phrases, in any letter case and
  anywhere in it, is not answered from the verses: \<open>response\<close> is the fixed farewell, the
  intent is \<open>goodbye\<close> and no verse is counted; the encoder, the index and the random
  choice are not called, so that there is neither retrieval nor generation.  The farewell
  still goes through \<open>synthesize_speech\<close>: a loaded voice is called on it, without its
  pictograph, and \<open>audio\<close> is what the voice gives.
\<close>

theorem exit_phrase_farewell:
  assumes "audio_data \<noteq> []"
    and "whisper_model_fs st = Some transcribe"
    and "transcribe (int16_pairs audio_data) = Inr (Some result_text)"
    and "strip result_text = before @ said @ after"
    and "lower said \<in> set EXIT_PHRASES"
  shows "process_audio_fs env st audio_data =
           (Transcribe (int16_pairs audio_data) # fst (synthesize_speech st FAREWELL),
            Reply \<lparr>transcription_fs = strip result_text,
                   response_fs = FAREWELL,
                   audio_fs = (case snd (synthesize_speech st FAREWELL) of
                                 None \<Rightarrow> None
                               | Some b \<Rightarrow> if b \<noteq> [] then Some (hex b) else None),
                   end_conversation = True,
                   intent_fs = ''goodbye'',
                   verse_count = 0\<rparr>,
            200)
    \<and> synthesize_speech st FAREWELL =
         (case piper_voice_fs st of
            None \<Rightarrow> ([], None)
          | Some synthesize_wav \<Rightarrow>
              ([SynthesizeWav ''Thank you for seeking Gita wisdom. May you find peace and fulfillment on your spiritual journey. Om Shanti!''],
               case synthesize_wav ''Thank you for seeking Gita wisdom. May you find peace and fulfillment on your spiritual journey. Om Shanti!'' of
                 Inl e \<Rightarrow> None | Inr wav_data \<Rightarrow> Some wav_data))"
proof -
  have "lower (strip result_text) = lower before @ lower said @ lower after"
    using assms(4) by (simp add: lower_def)
  then have "is_in (lower said) (lower (strip result_text))"
    unfolding is_in_iff by blast
  with assms(5)
  have e: "list_ex (\<lambda>phrase. is_in phrase (lower (strip result_text))) EXIT_PHRASES"
    unfolding list_ex_iff by blast
  obtain ev ab where s: "synthesize_speech st FAREWELL = (ev, ab)"
    by (cases "synthesize_speech st FAREWELL") auto
  have "process_audio_fs env st audio_data =
           (Transcribe (int16_pairs audio_data) # fst (synthesize_speech st FAREWELL),
            Reply \<lparr>transcription_fs = strip result_text,
                   response_fs = FAREWELL,
                   audio_fs = (case snd (synthesize_speech st FAREWELL) of
                                 None \<Rightarrow> None
                               | Some b \<Rightarrow> if b \<noteq> [] then Some (hex b) else None),
                   end_conversation = True,
                   intent_fs = ''goodbye'',
                   verse_count = 0\<rparr>,
            200)"
    unfolding process_audio_fs_def Let_def decoded
    using assms(1,2,3) e s by simp
  then show ?thesis using farewell_synthesis[of st] by (rule conjI)
qed

theorem exit_phrase_farewell_witness:
  "process_audio_fs example_faiss_env example_faiss_state example_body =
     ([Transcribe (int16_pairs example_body),
       SynthesizeWav ''Thank you for seeking Gita wisdom. May you find peace and fulfillment on your spiritual journey. Om Shanti!''],
      Reply \<lparr>transcription_fs = ''OK, Thank You!'',
             response_fs = FAREWELL,
             audio_fs = Some ''5249'',
             end_conversation = True,
             intent_fs = ''goodbye'',
             verse_count = 0\<rparr>,
      200)"
proof -
  have h1: "example_body \<noteq> []" by (simp add: example_body_def)
  have h2: "whisper_model_fs example_faiss_state = Some (\<lambda>a. Inr (Some '' OK, Thank You! ''))"
    by (simp add: example_faiss_state_def)
  have h3: "(\<lambda>a. Inr (Some '' OK, Thank You! '')) (int16_pairs example_body)
              = (Inr (Some '' OK, Thank You! '') :: exn + string option)"
    by simp
  have h4: "strip '' OK, Thank You! '' = ''OK, '' @ ''Thank You'' @ ''!''"
    by (simp add: strip_def is_space_def)
  have h5: "lower ''Thank You'' \<in> set EXIT_PHRASES"
    by code_simp
  have v: "piper_voice_fs example_faiss_state = Some (\<lambda>t. Inr [0x52, 0x49])"
    by (simp add: example_faiss_state_def)
  have x: "hex [0x52, 0x49] = ''5249''"
    by (simp add: hex_def hex_digit_def)
  from exit_phrase_farewell[OF h1 h2 h3 h4 h5, of example_faiss_env]
  show ?thesis by (simp add: v x h4)
qed

end
